theory Spec2Isabelle
  imports Complex_Main
begin

section \<open>Python strings\<close>

text \<open>
  A Python \<open>str\<close> is modelled as a \<open>string\<close>, one \<open>char\<close> per code point, which
  covers the code points 0 to 255. \<open>is_space\<close> is the whitespace class shared by
  \<open>str.strip()\<close> and the regular expression class \<open>\s\<close> on that range.
\<close>

definition is_space :: "char \<Rightarrow> bool" where
  "is_space c =
     (let n = (of_char c :: nat)
      in (9 \<le> n \<and> n \<le> 13) \<or> (28 \<le> n \<and> n \<le> 32) \<or> n = 133 \<or> n = 160)"

definition strip :: "string \<Rightarrow> string" where
  "strip s = rev (dropWhile is_space (rev (dropWhile is_space s)))"

text \<open>\<open>sep.join(xs)\<close>\<close>

fun join :: "string \<Rightarrow> string list \<Rightarrow> string" where
  "join sep [] = []"
| "join sep [x] = x"
| "join sep (x # y # ys) = x @ sep @ join sep (y # ys)"

text \<open>\<open>list(dict.fromkeys(xs))\<close>: the distinct elements, in order of first occurrence.\<close>

definition dict_fromkeys :: "'a list \<Rightarrow> 'a list" where
  "dict_fromkeys xs = foldl (\<lambda>acc x. if x \<in> set acc then acc else acc @ [x]) [] xs"

text \<open>\<open>s.startswith(p)\<close>\<close>

fun starts_with :: "string \<Rightarrow> string \<Rightarrow> bool" where
  "starts_with s [] = True"
| "starts_with [] (p # ps) = False"
| "starts_with (c # cs) (p # ps) = (c = p \<and> starts_with cs ps)"

text \<open>\<open>s.find(sub)\<close>: the index of the first occurrence; \<open>None\<close> is Python's \<open>-1\<close>.\<close>

fun str_find :: "string \<Rightarrow> string \<Rightarrow> nat option" where
  "str_find [] sub = (if sub = [] then Some 0 else None)"
| "str_find (c # cs) sub =
     (if starts_with (c # cs) sub then Some 0 else map_option Suc (str_find cs sub))"

text \<open>\<open>sub in s\<close>\<close>

definition str_contains :: "string \<Rightarrow> string \<Rightarrow> bool" where
  "str_contains s sub = (str_find s sub \<noteq> None)"

text \<open>
  \<open>s[i:]\<close> and \<open>s[:i]\<close> where \<open>i\<close> is the result of \<open>find\<close>: the index \<open>-1\<close>
  counts from the end.
\<close>

definition slice_from :: "string \<Rightarrow> nat option \<Rightarrow> string" where
  "slice_from s i = (case i of Some k \<Rightarrow> drop k s | None \<Rightarrow> drop (length s - 1) s)"

definition slice_to :: "string \<Rightarrow> nat option \<Rightarrow> string" where
  "slice_to s i = (case i of Some k \<Rightarrow> take k s | None \<Rightarrow> take (length s - 1) s)"

text \<open>\<open>s.replace(old, '')\<close>: every occurrence of \<open>old\<close>, left to right, is removed.\<close>

function str_remove :: "string \<Rightarrow> string \<Rightarrow> string" where
  "str_remove old [] = []"
| "str_remove old (c # cs) =
     (if old \<noteq> [] \<and> starts_with (c # cs) old
      then str_remove old (drop (length old) (c # cs))
      else c # str_remove old cs)"
  by pat_completeness auto
termination
  by (relation "measure (\<lambda>(old, s). length s)") auto

text \<open>\<open>s.split(c)\<close> for a separator of one character.\<close>

fun str_split :: "char \<Rightarrow> string \<Rightarrow> string list" where
  "str_split sep [] = [[]]"
| "str_split sep (c # cs) =
     (if c = sep then [] # str_split sep cs
      else (case str_split sep cs of
              [] \<Rightarrow> [[c]]
            | p # ps \<Rightarrow> (c # p) # ps))"

text \<open>
  \<open>s.lower()\<close> and \<open>s.upper()\<close>. The letters of the range 0 to 255 are folded as
  Python folds them; \<open>upper\<close> sends the sharp s to two letters, and leaves the two
  letters whose capital lies beyond 255 (181 and 255) as they are.
\<close>

definition lower_char :: "char \<Rightarrow> char" where
  "lower_char c =
     (let n = (of_char c :: nat)
      in if (65 \<le> n \<and> n \<le> 90) \<or> (192 \<le> n \<and> n \<le> 222 \<and> n \<noteq> 215)
         then char_of (n + 32) else c)"

definition upper_char :: "char \<Rightarrow> string" where
  "upper_char c =
     (let n = (of_char c :: nat)
      in if (97 \<le> n \<and> n \<le> 122) \<or> (224 \<le> n \<and> n \<le> 254 \<and> n \<noteq> 247)
         then [char_of (n - 32)]
         else if n = 223 then ''SS'' else [c])"

definition str_lower :: "string \<Rightarrow> string" where
  "str_lower s = map lower_char s"

definition str_upper :: "string \<Rightarrow> string" where
  "str_upper s = concat (map upper_char s)"

text \<open>The line feed.\<close>

definition nl :: string where
  "nl = [CHR 0x0A]"

text \<open>
  \<open>re.sub(r'```tag\s*|\s*```', '', s)\<close>, with \<open>tag\<close> one of \<open>cypher\<close>, \<open>json\<close>: at
  each position the first alternative is tried, then the second; a match is removed
  and the scan goes on behind it.
\<close>

function strip_fences :: "string \<Rightarrow> string \<Rightarrow> string" where
  "strip_fences tag [] = []"
| "strip_fences tag (c # cs) =
     (if starts_with (c # cs) (''```'' @ tag)
      then strip_fences tag (dropWhile is_space (drop (3 + length tag) (c # cs)))
      else if starts_with (dropWhile is_space (c # cs)) ''```''
      then strip_fences tag (drop 3 (dropWhile is_space (c # cs)))
      else c # strip_fences tag cs)"
  by pat_completeness auto
termination
proof (relation "measure (\<lambda>(tag, s). length s)", goal_cases)
  case 1
  show ?case by simp
next
  case (2 tag c cs)
  have "length (dropWhile is_space (drop (3 + length tag) (c # cs)))
          \<le> length (c # cs) - (3 + length tag)"
    by (rule order_trans [OF length_dropWhile_le]) simp
  then show ?case by simp
next
  case (3 tag c cs)
  then have sw: "starts_with (dropWhile is_space (c # cs)) ''```''"
    by simp
  have le: "length (dropWhile is_space (c # cs)) \<le> length (c # cs)"
    by (rule length_dropWhile_le)
  have "dropWhile is_space (c # cs) \<noteq> []"
  proof
    assume "dropWhile is_space (c # cs) = []"
    with sw show False by simp
  qed
  then obtain x xs where eq: "dropWhile is_space (c # cs) = x # xs"
    by (cases "dropWhile is_space (c # cs)") auto
  from le have "length xs < length (c # cs)"
    unfolding eq by simp
  then show ?case
    unfolding eq by simp
next
  case 4
  show ?case by simp
qed

section \<open>Exceptions\<close>

text \<open>
  Every exception is a value. \<open>UpstreamError\<close> stands for whatever an external
  client or library call raises; the other constructors are raised by the
  repository's own code. \<open>str_exn\<close> is \<open>str(e)\<close>.
\<close>

datatype exn =
    ValueError string
  | IndexError string
  | TypeError string
  | AttributeError string
  | KeyError string
  | UpstreamError string

fun str_exn :: "exn \<Rightarrow> string" where
  "str_exn (ValueError m) = m"
| "str_exn (IndexError m) = m"
| "str_exn (TypeError m) = m"
| "str_exn (AttributeError m) = m"
| "str_exn (KeyError m) = m"
| "str_exn (UpstreamError m) = m"

section \<open>Semantic chunker (vector\_processor.py, \_chunk\_text)\<close>

text \<open>
  \<open>re.split(r'(?<=[.!?])\s+', text)\<close>: the text is cut at every maximal run of
  whitespace that directly follows one of \<open>.\<close>, \<open>!\<close>, \<open>?\<close>; the run is dropped.
  \<open>cur\<close> is the piece read so far.
\<close>

definition is_sentence_end :: "char \<Rightarrow> bool" where
  "is_sentence_end c = (c = CHR ''.'' \<or> c = CHR ''!'' \<or> c = CHR ''?'')"

function re_split_sentences :: "string \<Rightarrow> string \<Rightarrow> string list" where
  "re_split_sentences cur [] = [cur]"
| "re_split_sentences cur (c # cs) =
     (if cur \<noteq> [] \<and> is_sentence_end (last cur) \<and> is_space c
      then cur # re_split_sentences [] (dropWhile is_space cs)
      else re_split_sentences (cur @ [c]) cs)"
  by pat_completeness auto
termination
  by (relation "measure (\<lambda>(cur, rest). length rest)")
     (auto simp: length_dropWhile_le less_Suc_eq_le)

text \<open>\<open>[s.strip() for s in re.split(...) if s.strip()]\<close>\<close>

definition split_sentences :: "string \<Rightarrow> string list" where
  "split_sentences text =
     map strip (filter (\<lambda>s. strip s \<noteq> []) (re_split_sentences [] text))"

text \<open>
  The loop state: committed chunks, the sentences and embeddings of the current
  chunk, and the running character count.
\<close>

record 'e chunk_state =
  chunks :: "string list"
  chunk :: "string list"
  chunk_embedding :: "'e list"
  chunk_token_length :: int

definition close_chunk ::
  "int \<Rightarrow> 'e chunk_state \<Rightarrow> string \<Rightarrow> 'e \<Rightarrow> 'e chunk_state" where
  "close_chunk min_chunk_size st sentence embedding =
     \<lparr> chunks = (if chunk_token_length st \<ge> min_chunk_size
                  then chunks st @ [join '' '' (chunk st)] else chunks st),
       chunk = [sentence],
       chunk_embedding = [embedding],
       chunk_token_length = int (length sentence) \<rparr>"

text \<open>
  One iteration of the \<open>for\<close> loop. The similarity is computed (and may raise)
  before the size test; the size test comes before the similarity test.
\<close>

definition chunk_step ::
  "('e \<Rightarrow> 'e \<Rightarrow> exn + real) \<Rightarrow> int \<Rightarrow> int \<Rightarrow> real \<Rightarrow>
   'e chunk_state \<Rightarrow> string \<times> 'e \<Rightarrow> exn + 'e chunk_state" where
  "chunk_step cosine_similarity max_chunk_size min_chunk_size similarity_threshold st p =
     (case p of (sentence, embedding) \<Rightarrow>
        if chunk st = [] then
          Inr \<lparr> chunks = chunks st, chunk = [sentence], chunk_embedding = [embedding],
                chunk_token_length = int (length sentence) \<rparr>
        else
          (case cosine_similarity embedding (last (chunk_embedding st)) of
             Inl e \<Rightarrow> Inl e
           | Inr similarity \<Rightarrow>
               if chunk_token_length st + int (length sentence) > max_chunk_size then
                 Inr (close_chunk min_chunk_size st sentence embedding)
               else if similarity > similarity_threshold then
                 Inr \<lparr> chunks = chunks st,
                       chunk = chunk st @ [sentence],
                       chunk_embedding = chunk_embedding st @ [embedding],
                       chunk_token_length = chunk_token_length st + int (length sentence) \<rparr>
               else
                 Inr (close_chunk min_chunk_size st sentence embedding)))"

fun chunk_loop ::
  "('e \<Rightarrow> 'e \<Rightarrow> exn + real) \<Rightarrow> int \<Rightarrow> int \<Rightarrow> real \<Rightarrow>
   'e chunk_state \<Rightarrow> (string \<times> 'e) list \<Rightarrow> exn + 'e chunk_state" where
  "chunk_loop cs mx mn thr st [] = Inr st"
| "chunk_loop cs mx mn thr st (p # ps) =
     (case chunk_step cs mx mn thr st p of
        Inl e \<Rightarrow> Inl e
      | Inr st' \<Rightarrow> chunk_loop cs mx mn thr st' ps)"

definition chunk_init :: "'e chunk_state" where
  "chunk_init = \<lparr> chunks = [], chunk = [], chunk_embedding = [], chunk_token_length = 0 \<rparr>"

text \<open>The commit of the trailing chunk after the loop, then the deduplication.\<close>

definition chunk_finish :: "int \<Rightarrow> 'e chunk_state \<Rightarrow> string list" where
  "chunk_finish min_chunk_size st =
     dict_fromkeys
       (if chunk st \<noteq> [] \<and> (chunk_token_length st \<ge> min_chunk_size \<or> length (chunks st) = 0)
        then chunks st @ [join '' '' (chunk st)] else chunks st)"

section \<open>External services and the trace of calls\<close>

text \<open>
  The embedding and chat service, the vector index and the graph store are
  collaborators of the code, not part of it. Each is a function of the calls made so
  far and of the arguments of the call, which returns the value of the call or the
  exception it raises; so a service may answer the same request differently at
  different times. Every call is appended to the trace, whether it returns or raises.

  A chat request is identified by the prompt template of its call site and the
  values placed into the template, a graph request by the query text of its call
  site and its parameters; the fixed prompt and query texts are not reproduced.
  Logging is left out, and so is the pause of half a second after a deletion from
  the vector index.
\<close>

datatype chat_request =
    ExtractRelations string
  | GenerateCypher string
  | AnswerFromGraph string string
  | AnswerFromContext string string
  | FuseAnswers string string string

datatype graph_request =
    RunGenerated string
  | CountDocuments
  | ListFilenames
  | DeleteFile string

datatype 'e call =
    EmbeddingsCreate "string list"
  | ChatCreate chat_request
  | QueryPoints 'e nat
  | Scroll "string option"
  | DeletePoints string
  | GraphRun graph_request

type_synonym payload = "(string \<times> string) list"

text \<open>
  \<open>cosine_similarity\<close> is the library function on two embeddings, \<open>str_record\<close>
  is \<open>str\<close> of a result row of the graph store, \<open>repr_set\<close> is the text that an
  f-string gives for a set of strings (the order of the elements is Python's).
\<close>

record ('e, 'r) services =
  embeddings_create :: "'e call list \<Rightarrow> string list \<Rightarrow> exn + 'e list"
  chat_create :: "'e call list \<Rightarrow> chat_request \<Rightarrow> exn + string"
  query_points :: "'e call list \<Rightarrow> 'e \<Rightarrow> nat \<Rightarrow> exn + payload list"
  scroll :: "'e call list \<Rightarrow> string option \<Rightarrow> exn + (payload list \<times> string option)"
  delete_points :: "'e call list \<Rightarrow> string \<Rightarrow> exn + unit"
  run_generated :: "'e call list \<Rightarrow> string \<Rightarrow> exn + 'r list"
  count_documents :: "'e call list \<Rightarrow> exn + unit"
  list_filenames :: "'e call list \<Rightarrow> exn + string list"
  run_delete :: "'e call list \<Rightarrow> string \<Rightarrow> exn + unit"
  cosine_similarity :: "'e \<Rightarrow> 'e \<Rightarrow> exn + real"
  str_record :: "'r \<Rightarrow> string"
  repr_set :: "string set \<Rightarrow> string"

text \<open>\<open>payload.get(key, dflt)\<close>\<close>

definition payload_get :: "payload \<Rightarrow> string \<Rightarrow> string \<Rightarrow> string" where
  "payload_get p key dflt = (case map_of p key of Some v \<Rightarrow> v | None \<Rightarrow> dflt)"

text \<open>The answer and the evidence that a query returns (the keys \<open>answer\<close> and \<open>chunks\<close>).\<close>

record 'c query_result =
  answer :: string
  result_chunks :: 'c

record 'r hybrid_chunks =
  vector :: "string list"
  graph :: "'r list"

section \<open>Vector retriever (vector\_processor.py)\<close>

definition embed_documents ::
  "('e, 'r) services \<Rightarrow> 'e call list \<Rightarrow> string list \<Rightarrow> (exn + 'e list) \<times> 'e call list" where
  "embed_documents sv h texts = (embeddings_create sv h texts, h @ [EmbeddingsCreate texts])"

text \<open>\<open>response.data[0].embedding\<close> raises when the service returns no item.\<close>

definition embed_query ::
  "('e, 'r) services \<Rightarrow> 'e call list \<Rightarrow> string \<Rightarrow> (exn + 'e) \<times> 'e call list" where
  "embed_query sv h text =
     ((case embeddings_create sv h [text] of
         Inl e \<Rightarrow> Inl e
       | Inr [] \<Rightarrow> Inl (IndexError ''list index out of range'')
       | Inr (item # _) \<Rightarrow> Inr item),
      h @ [EmbeddingsCreate [text]])"

definition chunk_text ::
  "('e, 'r) services \<Rightarrow> 'e call list \<Rightarrow> string \<Rightarrow> int \<Rightarrow> int \<Rightarrow> real \<Rightarrow>
   (exn + string list) \<times> 'e call list" where
  "chunk_text sv h text max_chunk_size min_chunk_size similarity_threshold =
     (let sentences = split_sentences text
      in if sentences = [] then (Inr [], h)
         else
           (case embed_documents sv h sentences of
              (Inl e, h1) \<Rightarrow> (Inl e, h1)
            | (Inr sentence_embeddings, h1) \<Rightarrow>
                if length sentences \<noteq> length sentence_embeddings
                then (Inl (ValueError ''Mismatch between number of sentences and embeddings''), h1)
                else
                  (case chunk_loop (cosine_similarity sv) max_chunk_size min_chunk_size
                          similarity_threshold chunk_init (zip sentences sentence_embeddings) of
                     Inl e \<Rightarrow> (Inl e, h1)
                   | Inr st \<Rightarrow> (Inr (chunk_finish min_chunk_size st), h1))))"

definition vector_query ::
  "('e, 'r) services \<Rightarrow> 'e call list \<Rightarrow> string \<Rightarrow>
   (exn + string list query_result) \<times> 'e call list" where
  "vector_query sv h question =
     (case embed_query sv h question of
        (Inl e, h1) \<Rightarrow> (Inl e, h1)
      | (Inr query_embedding, h1) \<Rightarrow>
          (let h2 = h1 @ [QueryPoints query_embedding 5]
           in case query_points sv h1 query_embedding 5 of
                Inl e \<Rightarrow> (Inl e, h2)
              | Inr [] \<Rightarrow>
                  (Inr \<lparr> answer = ''No relevant information found.'', result_chunks = [] \<rparr>, h2)
              | Inr (first_result # others) \<Rightarrow>
                  (let search_results = first_result # others;
                       texts = map (\<lambda>result. payload_get result ''text'' ''No text available'')
                                 search_results;
                       context = join (nl @ nl) texts;
                       source = payload_get first_result ''original_file_name'' ''Unknown'';
                       h3 = h2 @ [ChatCreate (AnswerFromContext question context)]
                   in case chat_create sv h2 (AnswerFromContext question context) of
                        Inl e \<Rightarrow> (Inl e, h3)
                      | Inr content \<Rightarrow>
                          (let answer = strip content;
                               final_answer =
                                 (if str_contains answer ''context does not'' then answer
                                  else answer @ '' [Source: '' @ source @ '']'')
                           in (Inr \<lparr> answer = final_answer, result_chunks = texts \<rparr>, h3)))))"

text \<open>
  The listing pages through the index. The loop ends when a page is empty or
  carries no next offset; a service that always returns one more page keeps it
  running, which is the value \<open>None\<close>.
\<close>

definition page_files :: "payload list \<Rightarrow> string set" where
  "page_files points =
     set (filter (\<lambda>name. name \<noteq> [])
            (List.map_filter (\<lambda>point. map_of point ''original_file_name'') points))"

partial_function (option) scroll_loop ::
  "('e, 'r) services \<Rightarrow> 'e call list \<Rightarrow> string set \<Rightarrow> payload list \<Rightarrow> string option \<Rightarrow>
   ((exn + string set) \<times> 'e call list) option" where
  "scroll_loop sv h processed_files points next_offset =
     (if points = [] then Some (Inr processed_files, h)
      else
        (case next_offset of
           None \<Rightarrow> Some (Inr (processed_files \<union> page_files points), h)
         | Some offset \<Rightarrow>
             (case scroll sv h (Some offset) of
                Inl e \<Rightarrow> Some (Inl e, h @ [Scroll (Some offset)])
              | Inr page \<Rightarrow>
                  scroll_loop sv (h @ [Scroll (Some offset)])
                    (processed_files \<union> page_files points) (fst page) (snd page))))"

definition vector_get_processed_files ::
  "('e, 'r) services \<Rightarrow> 'e call list \<Rightarrow> ((exn + string set) \<times> 'e call list) option" where
  "vector_get_processed_files sv h =
     (case scroll sv h None of
        Inl e \<Rightarrow> Some (Inl e, h @ [Scroll None])
      | Inr page \<Rightarrow> scroll_loop sv (h @ [Scroll None]) {} (fst page) (snd page))"

definition vector_delete_file_points ::
  "('e, 'r) services \<Rightarrow> 'e call list \<Rightarrow> string \<Rightarrow> (exn + string) \<times> 'e call list" where
  "vector_delete_file_points sv h filename =
     (case delete_points sv h filename of
        Inl e \<Rightarrow> (Inl e, h @ [DeletePoints filename])
      | Inr _ \<Rightarrow> (Inr (''Deleted points for file: '' @ filename), h @ [DeletePoints filename]))"

section \<open>Relation extractor (graph\_processor.py, \_extract\_entities\_and\_relationships)\<close>

text \<open>
  The value that \<open>json.loads\<close> returns. \<open>JAtom\<close> is any scalar that is not a
  string (a number, a boolean, null); the code only compares such values, and
  their comparison \<open>atom_eq\<close> is a parameter. A dictionary is the list of its items in
  order; a key is looked up with \<open>map_of\<close>.
\<close>

datatype 'a json =
    JDict "(string \<times> 'a json) list"
  | JList "'a json list"
  | JStr string
  | JAtom 'a

definition empty_extraction :: "'a json" where
  "empty_extraction = JDict [(''entities'', JList []), (''relationships'', JList [])]"

text \<open>\<open>key in d\<close> and \<open>d[key] = v\<close> for a key that is present.\<close>

definition has_key :: "(string \<times> 'b) list \<Rightarrow> string \<Rightarrow> bool" where
  "has_key d key = (key \<in> set (map fst d))"

definition dict_set :: "(string \<times> 'b) list \<Rightarrow> string \<Rightarrow> 'b \<Rightarrow> (string \<times> 'b) list" where
  "dict_set d key v = map (\<lambda>(k, old). if k = key then (k, v) else (k, old)) d"

text \<open>
  Dictionaries and lists cannot be members of a set, nor be looked up in one:
  Python raises \<open>TypeError\<close>. \<open>py_eq\<close> is the comparison that set membership uses.
\<close>

fun hashable :: "'a json \<Rightarrow> bool" where
  "hashable (JDict d) = False"
| "hashable (JList xs) = False"
| "hashable (JStr s) = True"
| "hashable (JAtom a) = True"

fun py_eq :: "('a \<Rightarrow> 'a \<Rightarrow> bool) \<Rightarrow> 'a json \<Rightarrow> 'a json \<Rightarrow> bool" where
  "py_eq atom_eq (JStr a) (JStr b) = (a = b)"
| "py_eq atom_eq (JAtom a) (JAtom b) = atom_eq a b"
| "py_eq atom_eq x y = False"

definition py_member :: "('a \<Rightarrow> 'a \<Rightarrow> bool) \<Rightarrow> 'a json \<Rightarrow> 'a json list \<Rightarrow> bool" where
  "py_member atom_eq x ys = list_ex (py_eq atom_eq x) ys"

definition valid_entity :: "'a json \<Rightarrow> bool" where
  "valid_entity entity =
     (case entity of
        JDict d \<Rightarrow> has_key d ''id'' \<and> has_key d ''name'' \<and> has_key d ''type''
      | _ \<Rightarrow> False)"

text \<open>\<open>e["id"]\<close> of every entity; the entities have passed \<open>valid_entity\<close> here.\<close>

definition entity_id :: "'a json \<Rightarrow> 'a json option" where
  "entity_id entity = (case entity of JDict d \<Rightarrow> map_of d ''id'' | _ \<Rightarrow> None)"

text \<open>
  The body of the loop over the relationships. \<open>Inr None\<close> is the early return of
  the empty result, \<open>Inr (Some rel')\<close> the relationship with its type in capitals.
\<close>

definition validate_rel ::
  "('a \<Rightarrow> 'a \<Rightarrow> bool) \<Rightarrow> 'a json list \<Rightarrow> 'a json \<Rightarrow> exn + 'a json option" where
  "validate_rel atom_eq entities rel =
     (case rel of
        JDict r \<Rightarrow>
          (case (map_of r ''source'', map_of r ''target'', map_of r ''type'') of
             (Some source, Some target, Some ty) \<Rightarrow>
               (let entity_ids = List.map_filter entity_id entities
                in if \<not> list_all hashable entity_ids then Inl (TypeError ''unhashable type'')
                   else if \<not> hashable source then Inl (TypeError ''unhashable type'')
                   else if \<not> py_member atom_eq source entity_ids then Inr None
                   else if \<not> hashable target then Inl (TypeError ''unhashable type'')
                   else if \<not> py_member atom_eq target entity_ids then Inr None
                   else
                     (case ty of
                        JStr t \<Rightarrow> Inr (Some (JDict (dict_set r ''type'' (JStr (str_upper t)))))
                      | _ \<Rightarrow> Inl (AttributeError ''object has no attribute upper'')))
           | _ \<Rightarrow> Inr None)
      | _ \<Rightarrow> Inr None)"

fun validate_rels ::
  "('a \<Rightarrow> 'a \<Rightarrow> bool) \<Rightarrow> 'a json list \<Rightarrow> 'a json list \<Rightarrow> exn + 'a json list option" where
  "validate_rels atom_eq entities [] = Inr (Some [])"
| "validate_rels atom_eq entities (rel # rels) =
     (case validate_rel atom_eq entities rel of
        Inl e \<Rightarrow> Inl e
      | Inr None \<Rightarrow> Inr None
      | Inr (Some rel') \<Rightarrow>
          (case validate_rels atom_eq entities rels of
             Inl e \<Rightarrow> Inl e
           | Inr None \<Rightarrow> Inr None
           | Inr (Some rels') \<Rightarrow> Inr (Some (rel' # rels'))))"

text \<open>The checks between \<open>json.loads\<close> and \<open>return parsed_result\<close>.\<close>

definition validate_extraction :: "('a \<Rightarrow> 'a \<Rightarrow> bool) \<Rightarrow> 'a json \<Rightarrow> exn + 'a json" where
  "validate_extraction atom_eq parsed_result =
     (case parsed_result of
        JDict d \<Rightarrow>
          (case (map_of d ''entities'', map_of d ''relationships'') of
             (Some entities, Some relationships) \<Rightarrow>
               (case entities of
                  JList ents \<Rightarrow>
                    if \<not> list_all valid_entity ents then Inr empty_extraction
                    else
                      (case relationships of
                         JList rels \<Rightarrow>
                           (case validate_rels atom_eq ents rels of
                              Inl e \<Rightarrow> Inl e
                            | Inr None \<Rightarrow> Inr empty_extraction
                            | Inr (Some rels') \<Rightarrow>
                                Inr (JDict (dict_set d ''relationships'' (JList rels'))))
                       | _ \<Rightarrow> Inr empty_extraction)
                | _ \<Rightarrow> Inr empty_extraction)
           | _ \<Rightarrow> Inr empty_extraction)
      | _ \<Rightarrow> Inr empty_extraction)"

text \<open>
  The whole operation: every exception of the body, the service's and the parser's
  included, is caught and gives the empty result.
\<close>

definition extract_entities_and_relationships ::
  "('e, 'r) services \<Rightarrow> (string \<Rightarrow> exn + 'a json) \<Rightarrow> ('a \<Rightarrow> 'a \<Rightarrow> bool) \<Rightarrow>
   'e call list \<Rightarrow> string \<Rightarrow> 'a json \<times> 'e call list" where
  "extract_entities_and_relationships sv json_loads atom_eq h text =
     (let h1 = h @ [ChatCreate (ExtractRelations text)]
      in case chat_create sv h (ExtractRelations text) of
           Inl e \<Rightarrow> (empty_extraction, h1)
         | Inr content \<Rightarrow>
             (let cleaned_result = strip (strip_fences ''json'' (strip content))
              in case json_loads cleaned_result of
                   Inl e \<Rightarrow> (empty_extraction, h1)
                 | Inr parsed_result \<Rightarrow>
                     (case validate_extraction atom_eq parsed_result of
                        Inl e \<Rightarrow> (empty_extraction, h1)
                      | Inr result \<Rightarrow> (result, h1))))"

section \<open>Graph query translator (graph\_processor.py, query)\<close>

text \<open>
  The classes \<open>\w\<close> and \<open>[a-zA-Z_]\<close> of the regular expressions, on the code
  points 0 to 255.
\<close>

definition is_word :: "char \<Rightarrow> bool" where
  "is_word c =
     (let n = (of_char c :: nat)
      in (48 \<le> n \<and> n \<le> 57) \<or> (65 \<le> n \<and> n \<le> 90) \<or> n = 95 \<or> (97 \<le> n \<and> n \<le> 122) \<or>
         n = 170 \<or> n = 178 \<or> n = 179 \<or> n = 181 \<or> n = 185 \<or> n = 186 \<or>
         (188 \<le> n \<and> n \<le> 190) \<or> (192 \<le> n \<and> n \<le> 214) \<or> (216 \<le> n \<and> n \<le> 246) \<or>
         (248 \<le> n \<and> n \<le> 255))"

definition is_ident_start :: "char \<Rightarrow> bool" where
  "is_ident_start c =
     (let n = (of_char c :: nat)
      in (65 \<le> n \<and> n \<le> 90) \<or> n = 95 \<or> (97 \<le> n \<and> n \<le> 122))"

text \<open>
  The matches of \<open>\b([a-zA-Z_]\w*)\b\<close>: the maximal runs of word characters that
  begin with a letter or an underscore, each with the text that follows it.
\<close>

function scan_idents :: "string \<Rightarrow> (string \<times> string) list" where
  "scan_idents [] = []"
| "scan_idents (c # cs) =
     (if is_word c
      then (if is_ident_start c then [(c # takeWhile is_word cs, dropWhile is_word cs)] else [])
           @ scan_idents (dropWhile is_word cs)
      else scan_idents cs)"
  by pat_completeness auto
termination
  by (relation "measure length") (auto simp: length_dropWhile_le less_Suc_eq_le)

text \<open>The lookahead \<open>(?=:|\s*{|\s*-|\s*\))\<close> on the text behind a match.\<close>

definition bound_lookahead :: "string \<Rightarrow> bool" where
  "bound_lookahead rest =
     (starts_with rest '':'' \<or>
      (case dropWhile is_space rest of
         [] \<Rightarrow> False
       | d # _ \<Rightarrow> d = CHR ''{'' \<or> d = CHR ''-'' \<or> d = CHR '')''))"

definition stoplist :: "string list" where
  "stoplist = [''match'', ''optional'', ''related'', ''mentioned_in'', ''entity'',
               ''document'', ''name'', ''where'', ''contains'']"

text \<open>The position of \<open>RETURN\<close>: \<open>cypher_query.upper().find("RETURN")\<close>.\<close>

definition return_index :: "string \<Rightarrow> nat option" where
  "return_index cypher_query = str_find (str_upper cypher_query) ''RETURN''"

definition defined_vars :: "string \<Rightarrow> string list" where
  "defined_vars cypher_query =
     (let match_clause = str_lower (slice_to cypher_query (return_index cypher_query));
          found = scan_idents match_clause
      in map fst (filter (\<lambda>(name, rest). bound_lookahead rest) found)
         @ filter (\<lambda>name. name \<notin> set stoplist) (map fst found))"

text \<open>
  One part of the result clause: \<open>None\<close> for a blank part (\<open>continue\<close>), otherwise
  the value of \<open>var\<close> before the last test of the loop body.
\<close>

definition projected_var :: "string \<Rightarrow> string option" where
  "projected_var part0 =
     (let part1 = strip part0
      in if part1 = [] then None
         else
           (let part = strip (str_remove ''return'' part1);
                var0 = (if str_contains part '' as ''
                        then strip (slice_to part (str_find part '' as ''))
                        else strip part);
                var = (if starts_with var0 ''type(''
                       then drop 5 (slice_to var0 (str_find var0 '')''))
                       else if str_contains var0 ''.''
                       then takeWhile (\<lambda>c. c \<noteq> CHR ''.'') var0
                       else var0)
            in Some var))"

definition return_parts :: "string \<Rightarrow> string list" where
  "return_parts cypher_query =
     str_split CHR '','' (str_lower (slice_from cypher_query (return_index cypher_query)))"

definition return_vars :: "string \<Rightarrow> string list" where
  "return_vars cypher_query =
     filter (\<lambda>var. var \<noteq> [] \<and> var \<noteq> ''type'' \<and> var \<noteq> ''as'')
       (List.map_filter projected_var (return_parts cypher_query))"

definition undefined_vars :: "string \<Rightarrow> string list" where
  "undefined_vars cypher_query =
     filter (\<lambda>var. var \<notin> set (defined_vars cypher_query)) (return_vars cypher_query)"

definition starts_with_keyword :: "string \<Rightarrow> bool" where
  "starts_with_keyword cypher_query =
     list_ex (starts_with cypher_query) [''MATCH'', ''WITH'', ''MERGE'', ''CREATE'', ''RETURN'']"

text \<open>The text of the query after the code fences are removed.\<close>

definition clean_cypher :: "string \<Rightarrow> string" where
  "clean_cypher content = strip (strip_fences ''cypher'' (strip content))"

text \<open>The body of the \<open>try\<close> block of \<open>query\<close>.\<close>

definition graph_query_try ::
  "('e, 'r) services \<Rightarrow> 'e call list \<Rightarrow> string \<Rightarrow>
   (exn + 'r list query_result) \<times> 'e call list" where
  "graph_query_try sv h question =
     (let h1 = h @ [ChatCreate (GenerateCypher question)]
      in case chat_create sv h (GenerateCypher question) of
           Inl e \<Rightarrow> (Inl e, h1)
         | Inr content \<Rightarrow>
             (let cypher_query = clean_cypher content
              in if \<not> starts_with_keyword cypher_query
                 then (Inl (ValueError (''Invalid Cypher query: '' @ cypher_query)), h1)
                 else if undefined_vars cypher_query \<noteq> []
                 then (Inl (ValueError (''Undefined variables in RETURN clause: ''
                              @ repr_set sv (set (undefined_vars cypher_query)))), h1)
                 else
                   (let h2 = h1 @ [GraphRun (RunGenerated cypher_query)]
                    in case run_generated sv h1 cypher_query of
                         Inl e \<Rightarrow> (Inl e, h2)
                       | Inr records \<Rightarrow>
                           (let context = join nl (map (str_record sv) records);
                                h3 = h2 @ [ChatCreate (AnswerFromGraph question context)]
                            in if context = []
                               then (Inr \<lparr> answer = ''No relevant information found in graph.'',
                                           result_chunks = [] \<rparr>, h2)
                               else
                                 (case chat_create sv h2 (AnswerFromGraph question context) of
                                    Inl e \<Rightarrow> (Inl e, h3)
                                  | Inr answer_content \<Rightarrow>
                                      (Inr \<lparr> answer = strip answer_content,
                                             result_chunks = records \<rparr>, h3))))))"

text \<open>The \<open>except Exception\<close> clause turns every exception of the body into an answer.\<close>

definition graph_query ::
  "('e, 'r) services \<Rightarrow> 'e call list \<Rightarrow> string \<Rightarrow> 'r list query_result \<times> 'e call list" where
  "graph_query sv h question =
     (case graph_query_try sv h question of
        (Inl e, h') \<Rightarrow>
          (\<lparr> answer = ''Graph query failed: '' @ str_exn e, result_chunks = [] \<rparr>, h')
      | (Inr result, h') \<Rightarrow> (result, h'))"

text \<open>
  The listing runs the counting query, whose result is only logged, then the
  query for the file names; any exception gives the empty set.
\<close>

definition graph_get_processed_files ::
  "('e, 'r) services \<Rightarrow> 'e call list \<Rightarrow> string set \<times> 'e call list" where
  "graph_get_processed_files sv h =
     (let h1 = h @ [GraphRun CountDocuments]
      in case count_documents sv h of
           Inl e \<Rightarrow> ({}, h1)
         | Inr _ \<Rightarrow>
             (case list_filenames sv h1 of
                Inl e \<Rightarrow> ({}, h1 @ [GraphRun ListFilenames])
              | Inr names \<Rightarrow> (set names, h1 @ [GraphRun ListFilenames])))"

definition graph_delete_file_points ::
  "('e, 'r) services \<Rightarrow> 'e call list \<Rightarrow> string \<Rightarrow> string \<times> 'e call list" where
  "graph_delete_file_points sv h filename =
     (case run_delete sv h filename of
        Inl e \<Rightarrow> (''Error deleting file: '' @ str_exn e, h @ [GraphRun (DeleteFile filename)])
      | Inr _ \<Rightarrow>
          (''Deleted graph data for file: '' @ filename, h @ [GraphRun (DeleteFile filename)]))"

section \<open>Hybrid combiner (hybrid\_processor.py)\<close>

definition hybrid_query ::
  "('e, 'r) services \<Rightarrow> 'e call list \<Rightarrow> string \<Rightarrow>
   (exn + 'r hybrid_chunks query_result) \<times> 'e call list" where
  "hybrid_query sv h question =
     (case vector_query sv h question of
        (Inl e, h1) \<Rightarrow> (Inl e, h1)
      | (Inr vector_result, h1) \<Rightarrow>
          (case graph_query sv h1 question of
             (graph_result, h2) \<Rightarrow>
               (let request = FuseAnswers question (answer vector_result) (answer graph_result);
                    h3 = h2 @ [ChatCreate request]
                in case chat_create sv h2 request of
                     Inl e \<Rightarrow> (Inl e, h3)
                   | Inr content \<Rightarrow>
                       (Inr \<lparr> answer = strip content,
                              result_chunks = \<lparr> vector = result_chunks vector_result,
                                                graph = result_chunks graph_result \<rparr> \<rparr>, h3))))"

definition hybrid_get_processed_files ::
  "('e, 'r) services \<Rightarrow> 'e call list \<Rightarrow> ((exn + string set) \<times> 'e call list) option" where
  "hybrid_get_processed_files sv h =
     (case vector_get_processed_files sv h of
        None \<Rightarrow> None
      | Some (Inl e, h1) \<Rightarrow> Some (Inl e, h1)
      | Some (Inr vector_files, h1) \<Rightarrow>
          (case graph_get_processed_files sv h1 of
             (graph_files, h2) \<Rightarrow> Some (Inr (vector_files \<inter> graph_files), h2)))"

definition hybrid_delete_file_points ::
  "('e, 'r) services \<Rightarrow> 'e call list \<Rightarrow> string \<Rightarrow> (exn + string) \<times> 'e call list" where
  "hybrid_delete_file_points sv h filename =
     (case vector_delete_file_points sv h filename of
        (Inl e, h1) \<Rightarrow> (Inl e, h1)
      | (Inr vector_status, h1) \<Rightarrow>
          (case graph_delete_file_points sv h1 filename of
             (graph_status, h2) \<Rightarrow> (Inr (vector_status @ nl @ graph_status), h2)))"

section \<open>Properties in the wording of the specification\<close>

text \<open>
  The identifiers that the result clause projects, as the specification describes
  them: the base identifier of every part, with no identifier left out.
\<close>

definition spec_projected_identifiers :: "string \<Rightarrow> string list" where
  "spec_projected_identifiers cypher_query =
     filter (\<lambda>var. var \<noteq> []) (List.map_filter projected_var (return_parts cypher_query))"

text \<open>
  A value is absent from the entities array when it equals the \<open>id\<close> of no entity;
  a relationship is dangling when its \<open>source\<close> or its \<open>target\<close> is absent.
\<close>

definition id_absent :: "('a \<Rightarrow> 'a \<Rightarrow> bool) \<Rightarrow> 'a json list \<Rightarrow> 'a json \<Rightarrow> bool" where
  "id_absent atom_eq entities v =
     (\<forall>entity\<in>set entities. case entity_id entity of
                                None \<Rightarrow> True
                              | Some i \<Rightarrow> \<not> py_eq atom_eq v i)"

definition dangling :: "('a \<Rightarrow> 'a \<Rightarrow> bool) \<Rightarrow> 'a json list \<Rightarrow> 'a json \<Rightarrow> bool" where
  "dangling atom_eq entities rel =
     (case rel of
        JDict r \<Rightarrow>
          (case map_of r ''source'' of
             Some source \<Rightarrow> id_absent atom_eq entities source
           | None \<Rightarrow> False)
          \<or> (case map_of r ''target'' of
                Some target \<Rightarrow> id_absent atom_eq entities target
              | None \<Rightarrow> False)
      | _ \<Rightarrow> False)"

text \<open>The running character count is the sum of the lengths of the sentences of the chunk.\<close>

definition length_is_sum :: "'e chunk_state \<Rightarrow> bool" where
  "length_is_sum st = (chunk_token_length st = sum_list (map (\<lambda>x. int (length x)) (chunk st)))"

section \<open>Example services\<close>

text \<open>
  Services for the concrete runs below. With \<open>echo_services\<close> every call returns:
  an embedding is the length of its text, the chat service answers with the question
  or the context it was given, both stores are empty.
\<close>

definition echo_chat :: "nat call list \<Rightarrow> chat_request \<Rightarrow> exn + string" where
  "echo_chat h request =
     (case request of
        ExtractRelations txt \<Rightarrow> Inr txt
      | GenerateCypher question \<Rightarrow> Inr question
      | AnswerFromGraph question context \<Rightarrow> Inr context
      | AnswerFromContext question context \<Rightarrow> Inr context
      | FuseAnswers question vector_answer graph_answer \<Rightarrow> Inr (vector_answer @ graph_answer))"

definition same_length_similarity :: "nat \<Rightarrow> nat \<Rightarrow> exn + real" where
  "same_length_similarity a b = Inr (if a = b then 1 else 0)"

definition echo_services :: "(nat, string) services" where
  "echo_services =
     \<lparr> embeddings_create = (\<lambda>h texts. Inr (map length texts)),
       chat_create = echo_chat,
       query_points = (\<lambda>h query limit. Inr []),
       scroll = (\<lambda>h offset. Inr ([], None)),
       delete_points = (\<lambda>h filename. Inr ()),
       run_generated = (\<lambda>h cypher_query. Inr []),
       count_documents = (\<lambda>h. Inr ()),
       list_filenames = (\<lambda>h. Inr []),
       run_delete = (\<lambda>h filename. Inr ()),
       cosine_similarity = same_length_similarity,
       str_record = (\<lambda>row. row),
       repr_set = (\<lambda>names. ''{...}'') \<rparr>"

text \<open>One stored point and one graph row.\<close>

definition stocked_services :: "(nat, string) services" where
  "stocked_services =
     echo_services
       \<lparr> query_points :=
           (\<lambda>h query limit.
              Inr [[(''text'', ''Alice works for TechCorp.''), (''original_file_name'', ''a.pdf'')]]),
         scroll :=
           (\<lambda>h offset. Inr ([[(''original_file_name'', ''a.pdf'')]], None)),
         run_generated := (\<lambda>h cypher_query. Inr [''WORKS_FOR'']),
         list_filenames := (\<lambda>h. Inr [''a.pdf'']) \<rparr>"

text \<open>The vector index holds a file; the search and every graph request raise.\<close>

definition stores_down_services :: "(nat, string) services" where
  "stores_down_services =
     stocked_services
       \<lparr> query_points := (\<lambda>h query limit. Inl (UpstreamError ''timeout'')),
         run_generated := (\<lambda>h cypher_query. Inl (UpstreamError ''unavailable'')),
         count_documents := (\<lambda>h. Inl (UpstreamError ''unavailable'')),
         list_filenames := (\<lambda>h. Inl (UpstreamError ''unavailable'')),
         run_delete := (\<lambda>h filename. Inl (UpstreamError ''unavailable'')) \<rparr>"

text \<open>The deletion from the vector index raises; the graph store accepts requests.\<close>

definition index_down_services :: "(nat, string) services" where
  "index_down_services =
     stocked_services \<lparr> delete_points := (\<lambda>h filename. Inl (UpstreamError ''timeout'')) \<rparr>"

text \<open>
  The embedding service raises; the chat service generates the query and raises
  when asked for an answer.
\<close>

definition answers_down_chat :: "nat call list \<Rightarrow> chat_request \<Rightarrow> exn + string" where
  "answers_down_chat h request =
     (case request of
        GenerateCypher question \<Rightarrow> Inr question
      | _ \<Rightarrow> Inl (UpstreamError ''rate limit''))"

definition answers_down_services :: "(nat, string) services" where
  "answers_down_services =
     stocked_services
       \<lparr> embeddings_create := (\<lambda>h texts. Inl (UpstreamError ''connection refused'')),
         chat_create := answers_down_chat \<rparr>"

text \<open>
  A parsed model output whose only relationship points at \<open>techcorp\<close>, which is not
  among the entities.
\<close>

definition alice_entity :: "unit json" where
  "alice_entity =
     JDict [(''id'', JStr ''alice_johnson''), (''name'', JStr ''Alice Johnson''),
            (''type'', JStr ''Person'')]"

definition works_for_techcorp :: "unit json" where
  "works_for_techcorp =
     JDict [(''source'', JStr ''alice_johnson''), (''target'', JStr ''techcorp''),
            (''type'', JStr ''works_for'')]"

definition dangling_items :: "(string \<times> unit json) list" where
  "dangling_items =
     [(''entities'', JList [alice_entity]), (''relationships'', JList [works_for_techcorp])]"

definition dangling_output :: "unit json" where
  "dangling_output = JDict dangling_items"

definition loads_dangling_output :: "string \<Rightarrow> exn + unit json" where
  "loads_dangling_output s = Inr dangling_output"

definition unit_eq :: "unit \<Rightarrow> unit \<Rightarrow> bool" where
  "unit_eq a b = True"

text \<open>The state of the chunker after the single sentence \<open>Hi.\<close>\<close>

definition after_hi :: "nat chunk_state" where
  "after_hi = \<lparr> chunks = [], chunk = [''Hi.''], chunk_embedding = [3], chunk_token_length = 3 \<rparr>"

section \<open>The chunker returns a chunk\<close>

lemma strip_nonempty:
  assumes "\<exists>c\<in>set s. \<not> is_space c"
  shows "strip s \<noteq> []"
proof -
  let ?t = "dropWhile is_space s"
  from assms have ne: "?t \<noteq> []"
    by (simp add: dropWhile_eq_Nil_conv)
  then have "\<not> is_space (hd ?t)"
    by (rule hd_dropWhile)
  moreover from ne have "hd ?t \<in> set (rev ?t)"
    by simp
  ultimately have "dropWhile is_space (rev ?t) \<noteq> []"
    by (auto simp: dropWhile_eq_Nil_conv)
  then show ?thesis
    by (simp add: strip_def)
qed

lemma re_split_keeps_text:
  "\<exists>c\<in>set (cur @ text). \<not> is_space c \<Longrightarrow>
   \<exists>p\<in>set (re_split_sentences cur text). \<exists>c\<in>set p. \<not> is_space c"
proof (induction cur "text" rule: re_split_sentences.induct)
  case (1 cur)
  then show ?case by simp
next
  case (2 cur c cs)
  show ?case
  proof (cases "cur \<noteq> [] \<and> is_sentence_end (last cur) \<and> is_space c")
    case True
    show ?thesis
    proof (cases "\<exists>x\<in>set cur. \<not> is_space x")
      case True
      with \<open>cur \<noteq> [] \<and> is_sentence_end (last cur) \<and> is_space c\<close> show ?thesis
        by auto
    next
      case False
      with "2.prems" True have "\<exists>x\<in>set cs. \<not> is_space x"
        by auto
      then have "dropWhile is_space cs \<noteq> []"
        by (simp add: dropWhile_eq_Nil_conv)
      then have "\<not> is_space (hd (dropWhile is_space cs))"
        and "hd (dropWhile is_space cs) \<in> set (dropWhile is_space cs)"
        by (simp_all add: hd_dropWhile)
      then have "\<exists>x\<in>set ([] @ dropWhile is_space cs). \<not> is_space x"
        by auto
      from "2.IH"(1) [OF True this] True show ?thesis
        by auto
    qed
  next
    case False
    from "2.prems" have "\<exists>x\<in>set ((cur @ [c]) @ cs). \<not> is_space x"
      by auto
    from "2.IH"(2) [OF False this] False show ?thesis
      by auto
  qed
qed

lemma split_sentences_nonempty:
  assumes "\<exists>c\<in>set text. \<not> is_space c"
  shows "split_sentences text \<noteq> []"
proof -
  from assms have "\<exists>c\<in>set ([] @ text). \<not> is_space c"
    by simp
  then obtain p where p: "p \<in> set (re_split_sentences [] text)" "\<exists>c\<in>set p. \<not> is_space c"
    using re_split_keeps_text by blast
  then have "strip p \<noteq> []"
    by (simp add: strip_nonempty)
  with p(1) have "filter (\<lambda>s. strip s \<noteq> []) (re_split_sentences [] text) \<noteq> []"
    by (auto simp: filter_empty_conv)
  then show ?thesis
    by (simp add: split_sentences_def)
qed

lemma dict_fromkeys_acc_nonempty:
  "acc \<noteq> [] \<or> xs \<noteq> [] \<Longrightarrow>
   foldl (\<lambda>acc x. if x \<in> set acc then acc else acc @ [x]) acc xs \<noteq> []"
proof (induction xs arbitrary: acc)
  case Nil
  then show ?case by simp
next
  case (Cons x xs)
  show ?case
  proof (cases "x \<in> set acc")
    case True
    then have "acc \<noteq> []"
      by auto
    with Cons.IH [of acc] True show ?thesis
      by simp
  next
    case False
    with Cons.IH [of "acc @ [x]"] show ?thesis
      by simp
  qed
qed

lemma dict_fromkeys_nonempty: "xs \<noteq> [] \<Longrightarrow> dict_fromkeys xs \<noteq> []"
  unfolding dict_fromkeys_def by (rule dict_fromkeys_acc_nonempty) simp

lemma chunk_step_result:
  assumes "chunk_step cs mx mn thr st (s, e) = Inr st'"
  shows "chunk st' \<noteq> [] \<and> last (chunk st') = s
         \<and> chunk_embedding st' \<noteq> [] \<and> last (chunk_embedding st') = e"
  using assms
  by (auto simp: chunk_step_def close_chunk_def split: if_splits sum.splits)

lemma chunk_loop_snoc:
  "chunk_loop cs mx mn thr st (ps @ [p]) =
     (case chunk_loop cs mx mn thr st ps of
        Inl e \<Rightarrow> Inl e
      | Inr st' \<Rightarrow> chunk_step cs mx mn thr st' p)"
  by (induction ps arbitrary: st) (auto split: sum.splits)

lemma chunk_loop_chunk_nonempty:
  "chunk_loop cs mx mn thr st ps = Inr st' \<Longrightarrow> ps \<noteq> [] \<Longrightarrow> chunk st' \<noteq> []"
proof (induction ps arbitrary: st' rule: rev_induct)
  case Nil
  then show ?case by simp
next
  case (snoc p ps)
  then obtain st1 where "chunk_step cs mx mn thr st1 p = Inr st'"
    by (auto simp: chunk_loop_snoc split: sum.splits)
  then show ?case
    using chunk_step_result [of cs mx mn thr st1 "fst p" "snd p" st'] by simp
qed

lemma chunk_step_total:
  assumes "\<forall>a b. \<exists>r. cs a b = Inr r"
  shows "\<exists>st'. chunk_step cs mx mn thr st p = Inr st'"
proof (cases p)
  case (Pair s e)
  from assms obtain r where "cs e (last (chunk_embedding st)) = Inr r"
    by blast
  with Pair show ?thesis
    by (simp add: chunk_step_def)
qed

lemma chunk_loop_total:
  assumes "\<forall>a b. \<exists>r. cs a b = Inr r"
  shows "\<exists>st'. chunk_loop cs mx mn thr st ps = Inr st'"
proof (induction ps arbitrary: st)
  case Nil
  show ?case by simp
next
  case (Cons p ps)
  from chunk_step_total [OF assms] obtain st1 where "chunk_step cs mx mn thr st p = Inr st1"
    by blast
  with Cons [of st1] show ?case
    by simp
qed

lemma chunk_finish_nonempty:
  assumes "chunk st \<noteq> []"
  shows "chunk_finish mn st \<noteq> []"
proof -
  have "(if chunk st \<noteq> [] \<and> (chunk_token_length st \<ge> mn \<or> length (chunks st) = 0)
         then chunks st @ [join '' '' (chunk st)] else chunks st) \<noteq> []"
    using assms by auto
  then show ?thesis
    unfolding chunk_finish_def by (rule dict_fromkeys_nonempty)
qed


text \<open>
  C3, as the code has it: a text that is not empty but holds only whitespace gives no
  sentence, and the chunker returns the empty list without calling the embedding
  service.
\<close>

theorem chunk_text_blank_counterexample:
  "'' '' \<noteq> [] \<and> chunk_text echo_services [] '' '' 500 100 0.5 = (Inr [], [])"
  by (simp add: chunk_text_def split_sentences_def strip_def is_space_def)

text \<open>
  C3, amended: for every text with a character that is not whitespace, when the
  embedding service returns one vector for each sentence and the similarity of two
  vectors is always computed, the chunker returns at least one chunk, whatever
  \<open>min_chunk_size\<close> is.
\<close>

theorem chunk_text_at_least_one_chunk:
  assumes nonblank: "\<exists>c\<in>set text. \<not> is_space c"
    and embed: "embeddings_create sv h (split_sentences text) = Inr embs"
    and len: "length embs = length (split_sentences text)"
    and sim: "\<forall>a b. \<exists>r. cosine_similarity sv a b = Inr r"
  shows "\<exists>cs. fst (chunk_text sv h text mx mn thr) = Inr cs \<and> cs \<noteq> []"
proof -
  let ?ss = "split_sentences text"
  have ne: "?ss \<noteq> []"
    using nonblank by (rule split_sentences_nonempty)
  with len have zne: "zip ?ss embs \<noteq> []"
    by (cases ?ss; cases embs) auto
  from chunk_loop_total [OF sim] obtain st
    where st: "chunk_loop (cosine_similarity sv) mx mn thr chunk_init (zip ?ss embs) = Inr st"
    by blast
  from chunk_loop_chunk_nonempty [OF st zne] have "chunk_finish mn st \<noteq> []"
    by (rule chunk_finish_nonempty)
  moreover have "fst (chunk_text sv h text mx mn thr) = Inr (chunk_finish mn st)"
    using ne embed len st by (simp add: chunk_text_def embed_documents_def)
  ultimately show ?thesis
    by simp
qed

theorem chunk_text_at_least_one_chunk_witness:
  "(\<exists>c\<in>set ''Hi.''. \<not> is_space c)
   \<and> embeddings_create echo_services [] (split_sentences ''Hi.'') = Inr [3]
   \<and> length [3 :: nat] = length (split_sentences ''Hi.'')
   \<and> (\<exists>cs. fst (chunk_text echo_services [] ''Hi.'' 500 100 0.5) = Inr cs \<and> cs \<noteq> [])"
proof -
  have a: "\<exists>c\<in>set ''Hi.''. \<not> is_space c"
    by (simp add: is_space_def)
  have b: "embeddings_create echo_services [] (split_sentences ''Hi.'') = Inr [3]"
    by code_simp
  have c: "length [3 :: nat] = length (split_sentences ''Hi.'')"
    by code_simp
  have d: "\<forall>a b. \<exists>r. cosine_similarity echo_services a b = Inr r"
    by (simp add: echo_services_def same_length_similarity_def)
  from chunk_text_at_least_one_chunk [OF a b c d, of 500 100 "0.5"] a b c show ?thesis
    by blast
qed

section \<open>The decision of the greedy loop\<close>

lemma chunk_step_length_is_sum:
  assumes "length_is_sum st" and "chunk_step cs mx mn thr st p = Inr st'"
  shows "length_is_sum st'"
  using assms
  by (cases p)
     (auto simp: chunk_step_def close_chunk_def length_is_sum_def split: if_splits sum.splits)

lemma chunk_loop_length_is_sum:
  "length_is_sum st \<Longrightarrow> chunk_loop cs mx mn thr st ps = Inr st' \<Longrightarrow> length_is_sum st'"
proof (induction ps arbitrary: st)
  case Nil
  then show ?case by simp
next
  case (Cons p ps)
  from Cons.prems(2) obtain st1
    where step: "chunk_step cs mx mn thr st p = Inr st1"
      and rest: "chunk_loop cs mx mn thr st1 ps = Inr st'"
    by (auto split: sum.splits)
  from chunk_step_length_is_sum [OF Cons.prems(1) step] rest show ?case
    by (rule Cons.IH)
qed


text \<open>
  C6: let \<open>st\<close> be the state of the loop after a sentence \<open>s0\<close> with embedding \<open>e0\<close>,
  whatever came before, and let \<open>(s, e)\<close> be the next sentence. Then \<open>s0\<close> is the last
  sentence of the current chunk, the running count is the sum of the lengths of the
  chunk's sentences, and \<open>s\<close> is appended exactly when the count with \<open>s\<close> stays within
  \<open>max_chunk_size\<close> and the similarity of \<open>e\<close> and \<open>e0\<close> exceeds the threshold. In every
  other case the chunk is closed and a new one starts with \<open>s\<close>; beyond the size bound
  this happens whatever the similarity is.
\<close>

theorem chunk_step_appends_iff:
  assumes loop: "chunk_loop cs mx mn thr chunk_init (pre @ [(s0, e0)]) = Inr st"
    and sim: "cs e e0 = Inr similarity"
  shows "last (chunk st) = s0 \<and> last (chunk_embedding st) = e0
         \<and> chunk_token_length st = sum_list (map (\<lambda>x. int (length x)) (chunk st))
         \<and> (\<exists>st'. chunk_step cs mx mn thr st (s, e) = Inr st'
                \<and> chunk_loop cs mx mn thr chunk_init (pre @ [(s0, e0), (s, e)]) = Inr st'
                \<and> (chunk st' = chunk st @ [s]
                     \<longleftrightarrow> chunk_token_length st + int (length s) \<le> mx \<and> similarity > thr)
                \<and> (chunk st' \<noteq> chunk st @ [s] \<longrightarrow>
                      chunk st' = [s]
                      \<and> chunks st' = (if chunk_token_length st \<ge> mn
                                      then chunks st @ [join '' '' (chunk st)] else chunks st))
                \<and> (chunk_token_length st + int (length s) > mx \<longrightarrow> chunk st' = [s]))"
proof -
  from loop obtain st0
    where last_step: "chunk_step cs mx mn thr st0 (s0, e0) = Inr st"
    by (auto simp: chunk_loop_snoc split: sum.splits)
  from chunk_step_result [OF last_step]
  have ne: "chunk st \<noteq> []" and l1: "last (chunk st) = s0"
    and l2: "last (chunk_embedding st) = e0"
    by simp_all
  have "length_is_sum (chunk_init :: 'a chunk_state)"
    by (simp add: length_is_sum_def chunk_init_def)
  from chunk_loop_length_is_sum [OF this loop]
  have len: "chunk_token_length st = sum_list (map (\<lambda>x. int (length x)) (chunk st))"
    by (simp add: length_is_sum_def)
  define st' where "st' =
    (if chunk_token_length st + int (length s) > mx then close_chunk mn st s e
     else if similarity > thr then
       \<lparr> chunks = chunks st, chunk = chunk st @ [s],
         chunk_embedding = chunk_embedding st @ [e],
         chunk_token_length = chunk_token_length st + int (length s) \<rparr>
     else close_chunk mn st s e)"
  have step: "chunk_step cs mx mn thr st (s, e) = Inr st'"
    using ne sim l2 by (simp add: chunk_step_def st'_def)
  have "pre @ [(s0, e0), (s, e)] = (pre @ [(s0, e0)]) @ [(s, e)]"
    by simp
  then have whole: "chunk_loop cs mx mn thr chunk_init (pre @ [(s0, e0), (s, e)]) = Inr st'"
    using loop step by (simp only: chunk_loop_snoc sum.case)
  have iff: "chunk st' = chunk st @ [s]
              \<longleftrightarrow> chunk_token_length st + int (length s) \<le> mx \<and> similarity > thr"
    using ne by (auto simp: st'_def close_chunk_def)
  have closed: "chunk st' \<noteq> chunk st @ [s] \<longrightarrow>
                  chunk st' = [s]
                  \<and> chunks st' = (if chunk_token_length st \<ge> mn
                                  then chunks st @ [join '' '' (chunk st)] else chunks st)"
    by (auto simp: st'_def close_chunk_def)
  have forced: "chunk_token_length st + int (length s) > mx \<longrightarrow> chunk st' = [s]"
    by (simp add: st'_def close_chunk_def)
  from l1 l2 len step whole iff closed forced show ?thesis
    by blast
qed

theorem chunk_step_appends_iff_witness:
  "chunk_loop same_length_similarity 500 100 0.5 chunk_init ([] @ [(''Hi.'', 3)]) = Inr after_hi
   \<and> same_length_similarity 3 3 = Inr 1
   \<and> (\<exists>st'. chunk_loop same_length_similarity 500 100 0.5 chunk_init
                ([] @ [(''Hi.'', 3), (''Yo.'', 3)]) = Inr st'
              \<and> chunk st' = [''Hi.'', ''Yo.''])"
proof -
  have a: "chunk_loop same_length_similarity 500 100 0.5 chunk_init ([] @ [(''Hi.'', 3)])
             = Inr after_hi"
    by (simp add: chunk_step_def chunk_init_def after_hi_def)
  have b: "same_length_similarity 3 3 = Inr 1"
    by (simp add: same_length_similarity_def)
  from chunk_step_appends_iff [OF a b, of "''Yo.''"] obtain st'
    where run: "chunk_loop same_length_similarity 500 100 0.5 chunk_init
                  ([] @ [(''Hi.'', 3), (''Yo.'', 3)]) = Inr st'"
      and iff: "chunk st' = chunk after_hi @ [''Yo.'']
                 \<longleftrightarrow> chunk_token_length after_hi + int (length ''Yo.'') \<le> 500
                       \<and> (1 :: real) > 0.5"
    by blast
  from iff have "chunk st' = [''Hi.'', ''Yo.'']"
    by (simp add: after_hi_def)
  with a b run show ?thesis
    by blast
qed

section \<open>Service failures inside a query\<close>

text \<open>
  The graph retriever's query catches what its services raise: a failure of the query
  generation, of the run against the graph store or of the answer synthesis gives the
  answer \<open>Graph query failed:\<close> followed by the message, with an empty evidence list.
\<close>

lemma graph_query_service_failures:
  "(chat_create sv h (GenerateCypher question) = Inl e
      \<longrightarrow> graph_query sv h question =
            (\<lparr> answer = ''Graph query failed: '' @ str_exn e, result_chunks = [] \<rparr>,
             h @ [ChatCreate (GenerateCypher question)]))
   \<and> (chat_create sv h (GenerateCypher question) = Inr content
        \<and> starts_with_keyword (clean_cypher content)
        \<and> undefined_vars (clean_cypher content) = []
        \<and> run_generated sv (h @ [ChatCreate (GenerateCypher question)]) (clean_cypher content) = Inl e
      \<longrightarrow> graph_query sv h question =
            (\<lparr> answer = ''Graph query failed: '' @ str_exn e, result_chunks = [] \<rparr>,
             h @ [ChatCreate (GenerateCypher question),
                  GraphRun (RunGenerated (clean_cypher content))]))
   \<and> (chat_create sv h (GenerateCypher question) = Inr content
        \<and> starts_with_keyword (clean_cypher content)
        \<and> undefined_vars (clean_cypher content) = []
        \<and> run_generated sv (h @ [ChatCreate (GenerateCypher question)]) (clean_cypher content)
            = Inr records
        \<and> join nl (map (str_record sv) records) \<noteq> []
        \<and> chat_create sv (h @ [ChatCreate (GenerateCypher question),
                                GraphRun (RunGenerated (clean_cypher content))])
             (AnswerFromGraph question (join nl (map (str_record sv) records))) = Inl e
      \<longrightarrow> graph_query sv h question =
            (\<lparr> answer = ''Graph query failed: '' @ str_exn e, result_chunks = [] \<rparr>,
             h @ [ChatCreate (GenerateCypher question),
                  GraphRun (RunGenerated (clean_cypher content)),
                  ChatCreate (AnswerFromGraph question (join nl (map (str_record sv) records)))]))"
proof (intro conjI impI, goal_cases)
  case 1
  then show ?case
    by (simp add: graph_query_def graph_query_try_def)
next
  case 2
  then show ?case
    by (simp add: graph_query_def graph_query_try_def)
next
  case 3
  then show ?case
    by (simp add: graph_query_def graph_query_try_def)
qed

text \<open>
  C1 asks both retrievers to answer a service failure with a failed-answer value and
  an empty evidence list. \<open>VectorDBProcessor.query\<close> lacks the handler that
  \<open>GraphDBProcessor.query\<close> has. With services whose embedding call and answer
  synthesis raise, the graph retriever returns \<open>Graph query failed: rate limit\<close> with
  no evidence, while the exception of the embedding call leaves the vector retriever's
  query, and with it the hybrid query, which returns nothing.
\<close>

theorem vector_query_failure_escapes:
  "graph_query answers_down_services [] ''MATCH (n) RETURN n'' =
     (\<lparr> answer = ''Graph query failed: rate limit'', result_chunks = [] \<rparr>,
      [ChatCreate (GenerateCypher ''MATCH (n) RETURN n''),
       GraphRun (RunGenerated ''MATCH (n) RETURN n''),
       ChatCreate (AnswerFromGraph ''MATCH (n) RETURN n'' ''WORKS_FOR'')])
   \<and> vector_query answers_down_services [] ''MATCH (n) RETURN n'' =
       (Inl (UpstreamError ''connection refused''), [EmbeddingsCreate [''MATCH (n) RETURN n'']])
   \<and> hybrid_query answers_down_services [] ''MATCH (n) RETURN n'' =
       (Inl (UpstreamError ''connection refused''), [EmbeddingsCreate [''MATCH (n) RETURN n'']])"
  by code_simp

section \<open>Validation of the generated query\<close>

text \<open>
  C4, as the code has it: the parts \<open>type\<close> and \<open>as\<close> of a result clause are never
  checked. The query \<open>MATCH (n) RETURN type\<close> begins with a permitted keyword and
  projects \<open>type\<close>, which its matching clause does not contain; it passes the
  validation and is run against the graph store.
\<close>

theorem type_projection_counterexample:
  "starts_with_keyword ''MATCH (n) RETURN type''
   \<and> ''type'' \<in> set (spec_projected_identifiers ''MATCH (n) RETURN type'')
   \<and> ''type'' \<notin> set (defined_vars ''MATCH (n) RETURN type'')
   \<and> graph_query echo_services [] ''MATCH (n) RETURN type'' =
       (\<lparr> answer = ''No relevant information found in graph.'', result_chunks = [] \<rparr>,
        [ChatCreate (GenerateCypher ''MATCH (n) RETURN type''),
         GraphRun (RunGenerated ''MATCH (n) RETURN type'')])"
  by code_simp

text \<open>
  C4, amended: a generated query that does not begin with one of the permitted
  keywords, or for which the validation finds a projected identifier (other than
  \<open>type\<close> and \<open>as\<close>) outside the identifiers collected from the matching clause, is
  rejected: the answer is \<open>Graph query failed:\<close> with the reason, the evidence is
  empty, and the only call made is the one that generated the query, so the query
  is not run against the graph store.
\<close>

theorem graph_query_rejects_before_execution:
  assumes "chat_create sv h (GenerateCypher question) = Inr content"
    and "\<not> starts_with_keyword (clean_cypher content) \<or> undefined_vars (clean_cypher content) \<noteq> []"
  shows "graph_query sv h question =
           (\<lparr> answer = ''Graph query failed: ''
                 @ (if \<not> starts_with_keyword (clean_cypher content)
                    then ''Invalid Cypher query: '' @ clean_cypher content
                    else ''Undefined variables in RETURN clause: ''
                         @ repr_set sv (set (undefined_vars (clean_cypher content)))),
               result_chunks = [] \<rparr>,
            h @ [ChatCreate (GenerateCypher question)])"
  using assms by (auto simp: graph_query_def graph_query_try_def Let_def)

theorem graph_query_rejects_before_execution_witness:
  "graph_query echo_services [] ''DROP DATABASE neo4j'' =
     (\<lparr> answer = ''Graph query failed: Invalid Cypher query: DROP DATABASE neo4j'',
        result_chunks = [] \<rparr>,
      [ChatCreate (GenerateCypher ''DROP DATABASE neo4j'')])
   \<and> undefined_vars ''MATCH (n) RETURN m.name'' = [''m'']
   \<and> graph_query echo_services [] ''MATCH (n) RETURN m.name'' =
     (\<lparr> answer = ''Graph query failed: Undefined variables in RETURN clause: {...}'',
        result_chunks = [] \<rparr>,
      [ChatCreate (GenerateCypher ''MATCH (n) RETURN m.name'')])"
proof -
  have c1: "clean_cypher ''DROP DATABASE neo4j'' = ''DROP DATABASE neo4j''"
    by code_simp
  have a1: "chat_create echo_services [] (GenerateCypher ''DROP DATABASE neo4j'')
              = Inr ''DROP DATABASE neo4j''"
    by (simp add: echo_services_def echo_chat_def)
  have b1: "\<not> starts_with_keyword (clean_cypher ''DROP DATABASE neo4j'')"
    by code_simp
  have c2: "clean_cypher ''MATCH (n) RETURN m.name'' = ''MATCH (n) RETURN m.name''"
    by code_simp
  have a2: "chat_create echo_services [] (GenerateCypher ''MATCH (n) RETURN m.name'')
              = Inr ''MATCH (n) RETURN m.name''"
    by (simp add: echo_services_def echo_chat_def)
  have u2: "undefined_vars ''MATCH (n) RETURN m.name'' = [''m'']"
    by code_simp
  have s2: "starts_with_keyword ''MATCH (n) RETURN m.name''"
    by code_simp
  have r: "repr_set echo_services names = ''{...}''" for names
    by (simp add: echo_services_def)
  from b1 have "\<not> starts_with_keyword (clean_cypher ''DROP DATABASE neo4j'')
                \<or> undefined_vars (clean_cypher ''DROP DATABASE neo4j'') \<noteq> []"
    by simp
  from graph_query_rejects_before_execution [OF a1 this] b1
  have first: "graph_query echo_services [] ''DROP DATABASE neo4j'' =
     (\<lparr> answer = ''Graph query failed: Invalid Cypher query: DROP DATABASE neo4j'',
        result_chunks = [] \<rparr>,
      [ChatCreate (GenerateCypher ''DROP DATABASE neo4j'')])"
    by (simp add: c1)
  from u2 have "\<not> starts_with_keyword (clean_cypher ''MATCH (n) RETURN m.name'')
                \<or> undefined_vars (clean_cypher ''MATCH (n) RETURN m.name'') \<noteq> []"
    by (simp add: c2)
  from graph_query_rejects_before_execution [OF a2 this] s2
  have second: "graph_query echo_services [] ''MATCH (n) RETURN m.name'' =
     (\<lparr> answer = ''Graph query failed: Undefined variables in RETURN clause: {...}'',
        result_chunks = [] \<rparr>,
      [ChatCreate (GenerateCypher ''MATCH (n) RETURN m.name'')])"
    by (simp add: c2 r)
  from first u2 second show ?thesis
    by blast
qed

section \<open>Relationships with a dangling end\<close>

lemma in_set_map_filter:
  "y \<in> set (List.map_filter f xs) \<longleftrightarrow> (\<exists>x\<in>set xs. f x = Some y)"
  by (induction xs) (auto simp: List.map_filter_simps split: option.splits)

lemma py_member_not_absent:
  assumes "py_member atom_eq v (List.map_filter entity_id entities)"
  shows "\<not> id_absent atom_eq entities v"
proof -
  from assms obtain i where "i \<in> set (List.map_filter entity_id entities)" and eq: "py_eq atom_eq v i"
    by (auto simp: py_member_def list_ex_iff)
  then obtain entity where "entity \<in> set entities" and "entity_id entity = Some i"
    by (auto simp: in_set_map_filter)
  with eq show ?thesis
    by (force simp: id_absent_def)
qed

lemma validate_rel_not_dangling:
  assumes "validate_rel atom_eq entities rel = Inr (Some rel')"
  shows "\<not> dangling atom_eq entities rel"
proof (cases rel)
  case (JDict r)
  with assms obtain source target
    where s: "map_of r ''source'' = Some source" and t: "map_of r ''target'' = Some target"
      and "py_member atom_eq source (List.map_filter entity_id entities)"
      and "py_member atom_eq target (List.map_filter entity_id entities)"
    by (auto simp: validate_rel_def Let_def split: option.splits if_splits json.splits)
  then have "\<not> id_absent atom_eq entities source" and "\<not> id_absent atom_eq entities target"
    by (simp_all add: py_member_not_absent)
  with JDict s t show ?thesis
    by (simp add: dangling_def)
qed (simp_all add: dangling_def)

lemma validate_rels_not_dangling:
  "validate_rels atom_eq entities rels = Inr (Some rels') \<Longrightarrow> rel \<in> set rels \<Longrightarrow>
   \<not> dangling atom_eq entities rel"
proof (induction rels arbitrary: rels')
  case Nil
  then show ?case by simp
next
  case (Cons x xs)
  from Cons.prems(1) obtain x' xs'
    where x: "validate_rel atom_eq entities x = Inr (Some x')"
      and xs: "validate_rels atom_eq entities xs = Inr (Some xs')"
    by (auto split: sum.splits option.splits)
  show ?case
  proof (cases "rel = x")
    case True
    with x show ?thesis
      by (simp add: validate_rel_not_dangling)
  next
    case False
    with Cons.prems(2) have "rel \<in> set xs"
      by simp
    with xs show ?thesis
      by (rule Cons.IH)
  qed
qed

lemma validate_extraction_dangling:
  assumes "map_of d ''entities'' = Some (JList entities)"
    and "map_of d ''relationships'' = Some (JList relationships)"
    and "rel \<in> set relationships" and "dangling atom_eq entities rel"
  shows "validate_extraction atom_eq (JDict d) = Inr empty_extraction
         \<or> (\<exists>e. validate_extraction atom_eq (JDict d) = Inl e)"
proof (cases "validate_rels atom_eq entities relationships")
  case (Inl e)
  with assms(1,2) show ?thesis
    by (simp add: validate_extraction_def)
next
  case (Inr r)
  show ?thesis
  proof (cases r)
    case None
    with Inr assms(1,2) show ?thesis
      by (simp add: validate_extraction_def)
  next
    case (Some rels')
    with Inr assms(3,4) have False
      using validate_rels_not_dangling by blast
    then show ?thesis ..
  qed
qed

text \<open>
  C5: when the parsed model output has a relationship whose \<open>source\<close> or \<open>target\<close> equals
  the \<open>id\<close> of no entity of the same output, the extractor returns the empty result,
  with no entity and no relationship.
\<close>

theorem dangling_relationship_discards_all:
  assumes "chat_create sv h (ExtractRelations txt) = Inr content"
    and "json_loads (strip (strip_fences ''json'' (strip content))) = Inr (JDict d)"
    and "map_of d ''entities'' = Some (JList entities)"
    and "map_of d ''relationships'' = Some (JList relationships)"
    and "rel \<in> set relationships"
    and "dangling atom_eq entities rel"
  shows "fst (extract_entities_and_relationships sv json_loads atom_eq h txt) = empty_extraction"
  using validate_extraction_dangling [OF assms(3-6)] assms(1,2)
  by (auto simp: extract_entities_and_relationships_def)

theorem dangling_relationship_discards_all_witness:
  "dangling unit_eq [alice_entity] works_for_techcorp
   \<and> fst (extract_entities_and_relationships echo_services loads_dangling_output unit_eq []
            ''Alice Johnson works for TechCorp.'')
       = JDict [(''entities'', JList []), (''relationships'', JList [])]"
proof -
  have a: "chat_create echo_services [] (ExtractRelations ''Alice Johnson works for TechCorp.'')
             = Inr ''Alice Johnson works for TechCorp.''"
    by (simp add: echo_services_def echo_chat_def)
  have b: "loads_dangling_output
             (strip (strip_fences ''json'' (strip ''Alice Johnson works for TechCorp.'')))
             = Inr (JDict dangling_items)"
    by (simp add: loads_dangling_output_def dangling_output_def)
  have c: "map_of dangling_items ''entities'' = Some (JList [alice_entity])"
    by (simp add: dangling_items_def)
  have d: "map_of dangling_items ''relationships'' = Some (JList [works_for_techcorp])"
    by (simp add: dangling_items_def)
  have e: "works_for_techcorp \<in> set [works_for_techcorp]"
    by simp
  have f: "dangling unit_eq [alice_entity] works_for_techcorp"
    by (simp add: dangling_def id_absent_def entity_id_def alice_entity_def
          works_for_techcorp_def)
  from dangling_relationship_discards_all
         [where json_loads = loads_dangling_output, OF a b c d e f] f
  show ?thesis
    by (simp add: empty_extraction_def)
qed

section \<open>Deletion from both stores\<close>

text \<open>
  What the hybrid deletion returns, for every behaviour of the two stores. The graph
  retriever reports the outcome of its own deletion as a status string. A deletion
  that the vector index refuses raises, and the graph deletion is then not attempted.
\<close>

lemma hybrid_delete_file_points_outcomes:
  "hybrid_delete_file_points sv h filename =
     (case delete_points sv h filename of
        Inl e \<Rightarrow> (Inl e, h @ [DeletePoints filename])
      | Inr ok \<Rightarrow>
          (Inr (''Deleted points for file: '' @ filename @ nl
                @ (case run_delete sv (h @ [DeletePoints filename]) filename of
                     Inl e \<Rightarrow> ''Error deleting file: '' @ str_exn e
                   | Inr ok' \<Rightarrow> ''Deleted graph data for file: '' @ filename)),
           h @ [DeletePoints filename, GraphRun (DeleteFile filename)]))"
  by (simp add: hybrid_delete_file_points_def vector_delete_file_points_def
        graph_delete_file_points_def split: sum.splits)

text \<open>
  C7 asks the hybrid deletion to attempt each store's deletion independently and to
  return both status strings without raising. \<open>VectorDBProcessor.delete_file_points\<close>
  lacks the handler that \<open>GraphDBProcessor.delete_file_points\<close> has. When the graph
  store refuses the deletion, the hybrid deletion returns the vector status and the
  status \<open>Error deleting file: unavailable\<close>. When the vector index refuses the
  deletion of a file that only the graph store holds, the exception leaves the hybrid
  deletion: no status is returned and the graph deletion is never attempted.
\<close>

theorem hybrid_delete_index_failure_escapes:
  "hybrid_delete_file_points stores_down_services [] ''only_in_vector.pdf'' =
     (Inr (''Deleted points for file: only_in_vector.pdf'' @ nl
           @ ''Error deleting file: unavailable''),
      [DeletePoints ''only_in_vector.pdf'', GraphRun (DeleteFile ''only_in_vector.pdf'')])
   \<and> hybrid_delete_file_points index_down_services [] ''only_in_graph.pdf'' =
       (Inl (UpstreamError ''timeout''), [DeletePoints ''only_in_graph.pdf''])"
  by code_simp

section \<open>Queries without a result\<close>

text \<open>
  C8: when the search of the vector index returns no point, the vector retriever
  returns \<open>No relevant information found.\<close> with an empty evidence list; when the
  generated query passes the validation and the graph store returns no row, the graph
  retriever returns \<open>No relevant information found in graph.\<close> with an empty evidence
  list. In both cases the trace ends with the call to the store: the answer
  synthesis is not called.
\<close>

theorem empty_result_sentinel:
  "(embeddings_create sv h [question] = Inr (query_embedding # others)
      \<and> query_points sv (h @ [EmbeddingsCreate [question]]) query_embedding 5 = Inr []
    \<longrightarrow> vector_query sv h question =
          (Inr \<lparr> answer = ''No relevant information found.'', result_chunks = [] \<rparr>,
           h @ [EmbeddingsCreate [question], QueryPoints query_embedding 5]))
   \<and> (chat_create sv h (GenerateCypher question) = Inr content
      \<and> starts_with_keyword (clean_cypher content)
      \<and> undefined_vars (clean_cypher content) = []
      \<and> run_generated sv (h @ [ChatCreate (GenerateCypher question)]) (clean_cypher content) = Inr []
    \<longrightarrow> graph_query sv h question =
          (\<lparr> answer = ''No relevant information found in graph.'', result_chunks = [] \<rparr>,
           h @ [ChatCreate (GenerateCypher question), GraphRun (RunGenerated (clean_cypher content))]))"
proof (intro conjI impI)
  assume "embeddings_create sv h [question] = Inr (query_embedding # others)
          \<and> query_points sv (h @ [EmbeddingsCreate [question]]) query_embedding 5 = Inr []"
  then show "vector_query sv h question =
          (Inr \<lparr> answer = ''No relevant information found.'', result_chunks = [] \<rparr>,
           h @ [EmbeddingsCreate [question], QueryPoints query_embedding 5])"
    by (simp add: vector_query_def embed_query_def)
next
  assume "chat_create sv h (GenerateCypher question) = Inr content
      \<and> starts_with_keyword (clean_cypher content)
      \<and> undefined_vars (clean_cypher content) = []
      \<and> run_generated sv (h @ [ChatCreate (GenerateCypher question)]) (clean_cypher content) = Inr []"
  then show "graph_query sv h question =
          (\<lparr> answer = ''No relevant information found in graph.'', result_chunks = [] \<rparr>,
           h @ [ChatCreate (GenerateCypher question), GraphRun (RunGenerated (clean_cypher content))])"
    by (simp add: graph_query_def graph_query_try_def)
qed

theorem empty_result_sentinel_witness:
  "vector_query echo_services [] ''Who works for TechCorp?'' =
     (Inr \<lparr> answer = ''No relevant information found.'', result_chunks = [] \<rparr>,
      [EmbeddingsCreate [''Who works for TechCorp?''], QueryPoints 23 5])
   \<and> graph_query echo_services [] ''MATCH (n) RETURN n'' =
     (\<lparr> answer = ''No relevant information found in graph.'', result_chunks = [] \<rparr>,
      [ChatCreate (GenerateCypher ''MATCH (n) RETURN n''),
       GraphRun (RunGenerated ''MATCH (n) RETURN n'')])"
proof -
  have v: "embeddings_create echo_services [] [''Who works for TechCorp?''] = Inr (23 # [])
           \<and> query_points echo_services ([] @ [EmbeddingsCreate [''Who works for TechCorp?'']]) 23 5
               = Inr []"
    by (simp add: echo_services_def)
  have c: "clean_cypher ''MATCH (n) RETURN n'' = ''MATCH (n) RETURN n''"
    by code_simp
  have g: "chat_create echo_services [] (GenerateCypher ''MATCH (n) RETURN n'')
             = Inr ''MATCH (n) RETURN n''
           \<and> starts_with_keyword (clean_cypher ''MATCH (n) RETURN n'')
           \<and> undefined_vars (clean_cypher ''MATCH (n) RETURN n'') = []
           \<and> run_generated echo_services ([] @ [ChatCreate (GenerateCypher ''MATCH (n) RETURN n'')])
                (clean_cypher ''MATCH (n) RETURN n'') = Inr []"
    by code_simp
  from empty_result_sentinel [where sv = echo_services and h = "[]"
         and question = "''Who works for TechCorp?''" and query_embedding = 23 and others = "[]"] v
  have "vector_query echo_services [] ''Who works for TechCorp?'' =
          (Inr \<lparr> answer = ''No relevant information found.'', result_chunks = [] \<rparr>,
           [] @ [EmbeddingsCreate [''Who works for TechCorp?''], QueryPoints 23 5])"
    by blast
  moreover
  from empty_result_sentinel [where sv = echo_services and h = "[]"
         and question = "''MATCH (n) RETURN n''" and content = "''MATCH (n) RETURN n''"] g
  have "graph_query echo_services [] ''MATCH (n) RETURN n'' =
          (\<lparr> answer = ''No relevant information found in graph.'', result_chunks = [] \<rparr>,
           [] @ [ChatCreate (GenerateCypher ''MATCH (n) RETURN n''),
                 GraphRun (RunGenerated (clean_cypher ''MATCH (n) RETURN n''))])"
    by blast
  ultimately show ?thesis
    by (simp add: c)
qed

section \<open>The evidence of a hybrid query\<close>

text \<open>
  C9: whenever the hybrid query returns, the vector query and the graph query it ran
  have returned, and the two evidence lists of the result are the evidence list of
  the one and the evidence list of the other, each as it was returned.
\<close>

theorem hybrid_evidence_preserved:
  assumes "hybrid_query sv h question = (Inr result, h')"
  shows "\<exists>vector_result h1 graph_result h2.
           vector_query sv h question = (Inr vector_result, h1)
           \<and> graph_query sv h1 question = (graph_result, h2)
           \<and> vector (result_chunks result) = result_chunks vector_result
           \<and> graph (result_chunks result) = result_chunks graph_result"
proof -
  obtain v h1 where v: "vector_query sv h question = (v, h1)"
    by (cases "vector_query sv h question")
  obtain graph_result h2 where g: "graph_query sv h1 question = (graph_result, h2)"
    by (cases "graph_query sv h1 question")
  from assms v obtain vector_result where vr: "v = Inr vector_result"
    by (cases v) (auto simp: hybrid_query_def)
  from assms v g vr
  have "vector (result_chunks result) = result_chunks vector_result
        \<and> graph (result_chunks result) = result_chunks graph_result"
    by (auto simp: hybrid_query_def Let_def split: sum.splits)
  with v g vr show ?thesis
    by blast
qed

theorem hybrid_evidence_preserved_witness:
  "hybrid_query stocked_services [] ''MATCH (n) RETURN n'' =
     (Inr \<lparr> answer = ''Alice works for TechCorp. [Source: a.pdf]WORKS_FOR'',
            result_chunks = \<lparr> vector = [''Alice works for TechCorp.''], graph = [''WORKS_FOR''] \<rparr> \<rparr>,
      [EmbeddingsCreate [''MATCH (n) RETURN n''], QueryPoints 18 5,
       ChatCreate (AnswerFromContext ''MATCH (n) RETURN n'' ''Alice works for TechCorp.''),
       ChatCreate (GenerateCypher ''MATCH (n) RETURN n''),
       GraphRun (RunGenerated ''MATCH (n) RETURN n''),
       ChatCreate (AnswerFromGraph ''MATCH (n) RETURN n'' ''WORKS_FOR''),
       ChatCreate (FuseAnswers ''MATCH (n) RETURN n''
                     ''Alice works for TechCorp. [Source: a.pdf]'' ''WORKS_FOR'')])
   \<and> (\<exists>vector_result h1 graph_result h2.
         vector_query stocked_services [] ''MATCH (n) RETURN n'' = (Inr vector_result, h1)
         \<and> graph_query stocked_services h1 ''MATCH (n) RETURN n'' = (graph_result, h2)
         \<and> result_chunks vector_result = [''Alice works for TechCorp.'']
         \<and> result_chunks graph_result = [''WORKS_FOR''])"
proof -
  have run: "hybrid_query stocked_services [] ''MATCH (n) RETURN n'' =
     (Inr \<lparr> answer = ''Alice works for TechCorp. [Source: a.pdf]WORKS_FOR'',
            result_chunks = \<lparr> vector = [''Alice works for TechCorp.''], graph = [''WORKS_FOR''] \<rparr> \<rparr>,
      [EmbeddingsCreate [''MATCH (n) RETURN n''], QueryPoints 18 5,
       ChatCreate (AnswerFromContext ''MATCH (n) RETURN n'' ''Alice works for TechCorp.''),
       ChatCreate (GenerateCypher ''MATCH (n) RETURN n''),
       GraphRun (RunGenerated ''MATCH (n) RETURN n''),
       ChatCreate (AnswerFromGraph ''MATCH (n) RETURN n'' ''WORKS_FOR''),
       ChatCreate (FuseAnswers ''MATCH (n) RETURN n''
                     ''Alice works for TechCorp. [Source: a.pdf]'' ''WORKS_FOR'')])"
    by code_simp
  from hybrid_evidence_preserved [OF run] obtain vector_result h1 graph_result h2
    where "vector_query stocked_services [] ''MATCH (n) RETURN n'' = (Inr vector_result, h1)"
      and "graph_query stocked_services h1 ''MATCH (n) RETURN n'' = (graph_result, h2)"
      and "[''Alice works for TechCorp.''] = result_chunks vector_result"
      and "[''WORKS_FOR''] = result_chunks graph_result"
    by auto
  with run show ?thesis
    by metis
qed

section \<open>Listing the processed files\<close>

text \<open>
  C10: when the counting query or the listing query of the graph store raises, the
  graph retriever lists the empty set; and when the vector retriever has listed its
  files, the hybrid listing, which intersects the two, is then empty as well.
\<close>

theorem graph_listing_failure_gives_empty:
  "((count_documents sv h = Inl e \<or> list_filenames sv (h @ [GraphRun CountDocuments]) = Inl e)
      \<longrightarrow> fst (graph_get_processed_files sv h) = {})
   \<and> (vector_get_processed_files sv h = Some (Inr vector_files, h1)
        \<and> (count_documents sv h1 = Inl e
             \<or> list_filenames sv (h1 @ [GraphRun CountDocuments]) = Inl e)
      \<longrightarrow> (\<exists>h2. hybrid_get_processed_files sv h = Some (Inr {}, h2)))"
proof -
  have graph_empty: "fst (graph_get_processed_files sv k) = {}"
    if "count_documents sv k = Inl e \<or> list_filenames sv (k @ [GraphRun CountDocuments]) = Inl e"
    for k
    using that
    by (cases "count_documents sv k") (auto simp: graph_get_processed_files_def)
  have "\<exists>h2. hybrid_get_processed_files sv h = Some (Inr {}, h2)"
    if v: "vector_get_processed_files sv h = Some (Inr vector_files, h1)"
      and g: "count_documents sv h1 = Inl e
              \<or> list_filenames sv (h1 @ [GraphRun CountDocuments]) = Inl e"
  proof -
    obtain graph_files h2 where r: "graph_get_processed_files sv h1 = (graph_files, h2)"
      by (cases "graph_get_processed_files sv h1")
    with graph_empty [OF g] have "graph_files = {}"
      by simp
    with v r show ?thesis
      by (simp add: hybrid_get_processed_files_def)
  qed
  with graph_empty [of h] show ?thesis
    by blast
qed

theorem graph_listing_failure_gives_empty_witness:
  "vector_get_processed_files stores_down_services [] = Some (Inr {''a.pdf''}, [Scroll None])
   \<and> count_documents stores_down_services [Scroll None] = Inl (UpstreamError ''unavailable'')
   \<and> fst (graph_get_processed_files stores_down_services []) = {}
   \<and> (\<exists>h2. hybrid_get_processed_files stores_down_services [] = Some (Inr {}, h2))"
proof -
  have v: "vector_get_processed_files stores_down_services [] = Some (Inr {''a.pdf''}, [Scroll None])"
    by (simp add: vector_get_processed_files_def stores_down_services_def stocked_services_def
          echo_services_def scroll_loop.simps page_files_def List.map_filter_simps)
  have c: "count_documents stores_down_services k = Inl (UpstreamError ''unavailable'')" for k
    by (simp add: stores_down_services_def)
  from graph_listing_failure_gives_empty
         [where sv = stores_down_services and h = "[]" and e = "UpstreamError ''unavailable''"
            and vector_files = "{''a.pdf''}" and ?h1.0 = "[Scroll None]"]
       v c [of "[]"] c [of "[Scroll None]"]
  show ?thesis
    by blast
qed

end
